theory Spec2Isabelle
  imports Complex_Main "HOL-Library.Sublist"
begin

section \<open>Python values\<close>

text \<open>
  A Python \<open>str\<close> is a sequence of Unicode code points, so it is modelled as a list of
  naturals. ASCII literals of the source are written with \<open>s2p\<close>; the few non-ASCII
  characters of the source (emoji, bullets) and its newlines appear as their code points.
\<close>

type_synonym pystr = "nat list"

definition s2p :: "string \<Rightarrow> pystr" where
  "s2p s = map of_char s"

text \<open>
  What \<open>request.json()\<close> and \<open>response.json()\<close> decode to: the \<open>Dict[str, Any]\<close> of the
  source. A dict is an association list in insertion order; the keys of a decoded dict are
  distinct, and a lookup reads the first entry of a key. \<open>JFloat\<close> carries the value of
  a finite float.
\<close>

datatype json =
    JNull
  | JBool bool
  | JInt int
  | JFloat rat
  | JStr pystr
  | JList "json list"
  | JDict "(pystr \<times> json) list"

text \<open>Truthiness, as \<open>if x\<close> and \<open>not x\<close> test it.\<close>

fun py_truthy :: "json \<Rightarrow> bool" where
  "py_truthy JNull = False"
| "py_truthy (JBool b) = b"
| "py_truthy (JInt n) = (n \<noteq> 0)"
| "py_truthy (JFloat r) = (r \<noteq> 0)"
| "py_truthy (JStr s) = (s \<noteq> [])"
| "py_truthy (JList xs) = (xs \<noteq> [])"
| "py_truthy (JDict kvs) = (kvs \<noteq> [])"

fun type_name :: "json \<Rightarrow> pystr" where
  "type_name JNull = s2p ''NoneType''"
| "type_name (JBool b) = s2p ''bool''"
| "type_name (JInt n) = s2p ''int''"
| "type_name (JFloat r) = s2p ''float''"
| "type_name (JStr s) = s2p ''str''"
| "type_name (JList xs) = s2p ''list''"
| "type_name (JDict kvs) = s2p ''dict''"

subsection \<open>Exceptions\<close>

text \<open>
  The exception classes that the calls of this program raise. All of them derive from
  \<open>Exception\<close>, so \<open>except Exception\<close> catches every value of \<open>py_exception\<close>;
  \<open>except requests.exceptions.RequestException\<close> catches the classes of
  \<open>is_RequestException\<close> only. \<open>OtherException\<close> stands for any further subclass of
  \<open>Exception\<close> outside the \<open>requests\<close> hierarchy. \<open>HTTPException\<close> is FastAPI's, with
  its status code and detail.
\<close>

datatype exc_class =
    AttributeError
  | IndexError
  | ValueError
  | OpenAIError
  | OtherException
  | RequestException
  | HTTPError
  | ConnectionError
  | Timeout
  | InvalidJSONError

datatype py_exception =
    PyException exc_class pystr
  | HTTPException int pystr

fun is_RequestException :: "py_exception \<Rightarrow> bool" where
  "is_RequestException (PyException RequestException m) = True"
| "is_RequestException (PyException HTTPError m) = True"
| "is_RequestException (PyException ConnectionError m) = True"
| "is_RequestException (PyException Timeout m) = True"
| "is_RequestException (PyException InvalidJSONError m) = True"
| "is_RequestException e = False"

fun is_Exception :: "py_exception \<Rightarrow> bool" where
  "is_Exception e = True"

text \<open>Decimal rendering of an integer, as \<open>str(n)\<close> and an f-string give it.\<close>

fun str_nat :: "nat \<Rightarrow> pystr" where
  "str_nat n = (if n < 10 then [48 + n] else str_nat (n div 10) @ [48 + n mod 10])"

declare str_nat.simps [simp del]

definition str_int :: "int \<Rightarrow> pystr" where
  "str_int i = (if i < 0 then 45 # str_nat (nat (- i)) else str_nat (nat i))"

text \<open>\<open>str(e)\<close>: the message; for an \<open>HTTPException\<close>, status code and detail.\<close>

fun exc_str :: "py_exception \<Rightarrow> pystr" where
  "exc_str (PyException c m) = m"
| "exc_str (HTTPException code detail) = str_int code @ s2p '': '' @ detail"

definition attribute_error :: "json \<Rightarrow> pystr \<Rightarrow> py_exception" where
  "attribute_error v attr =
     PyException AttributeError
       ([39] @ type_name v @ [39] @ s2p '' object has no attribute '' @ [39] @ attr @ [39])"

text \<open>
  \<open>v.get(key, default)\<close>: a dict answers with the value or the default, any other value
  has no attribute \<open>get\<close>.
\<close>

fun py_get :: "json \<Rightarrow> pystr \<Rightarrow> json \<Rightarrow> py_exception + json" where
  "py_get (JDict kvs) key dflt = (case map_of kvs key of Some v \<Rightarrow> Inr v | None \<Rightarrow> Inr dflt)"
| "py_get v key dflt = Inl (attribute_error v (s2p ''get''))"

subsection \<open>String methods\<close>

text \<open>
  \<open>str.lower()\<close>: an ASCII code point is lowered by the ASCII rule. The lowering of a
  non-ASCII code point is the Unicode table of the Python runtime (which may expand a code
  point and, for the capital sigma, looks at its context); it is the parameter
  \<open>ulower\<close>, given the string and the position.
\<close>

definition ascii_lower :: "nat \<Rightarrow> nat" where
  "ascii_lower c = (if 65 \<le> c \<and> c \<le> 90 then c + 32 else c)"

definition lower_at :: "(pystr \<Rightarrow> nat \<Rightarrow> pystr) \<Rightarrow> pystr \<Rightarrow> nat \<Rightarrow> pystr" where
  "lower_at ulower s i = (if s ! i < 128 then [ascii_lower (s ! i)] else ulower s i)"

definition str_lower :: "(pystr \<Rightarrow> nat \<Rightarrow> pystr) \<Rightarrow> pystr \<Rightarrow> pystr" where
  "str_lower ulower s = concat (map (lower_at ulower s) [0..<length s])"

text \<open>A stand-in for the Unicode table that leaves every non-ASCII code point as it is.\<close>

definition keep_non_ascii :: "pystr \<Rightarrow> nat \<Rightarrow> pystr" where
  "keep_non_ascii s i = [s ! i]"

text \<open>
  \<open>str.strip()\<close> removes leading and trailing whitespace: the code points for which
  \<open>str.isspace\<close> holds.
\<close>

definition py_isspace :: "nat \<Rightarrow> bool" where
  "py_isspace c \<longleftrightarrow>
     (9 \<le> c \<and> c \<le> 13) \<or> (28 \<le> c \<and> c \<le> 32) \<or> c = 133 \<or> c = 160 \<or> c = 5760 \<or>
     (8192 \<le> c \<and> c \<le> 8202) \<or> c = 8232 \<or> c = 8233 \<or> c = 8239 \<or> c = 8287 \<or> c = 12288"

definition py_strip :: "pystr \<Rightarrow> pystr" where
  "py_strip s = rev (dropWhile py_isspace (rev (dropWhile py_isspace s)))"

section \<open>The FAQ table and its matcher\<close>

text \<open>\<open>FAQ_RESPONSES\<close>: the dict literal, in insertion order.\<close>

definition FAQ_RESPONSES :: "(pystr \<times> pystr) list" where
  "FAQ_RESPONSES =
    [(s2p ''hours'',
      s2p ''Our business hours are Monday to Friday, 9 AM to 6 PM EST. We're closed on weekends and public holidays.''),
     (s2p ''location'',
      s2p ''We're located at 123 Main Street, Suite 100, New York, NY 10001. You can also reach us online 24/7!''),
     (s2p ''contact'',
      s2p ''You can contact us via:'' @ [10, 128231] @ s2p '' Email: support@company.com'' @
      [10, 128222] @ s2p '' Phone: +1 (555) 123-4567'' @ [10, 128172] @
      s2p '' This chat (24/7 AI support)''),
     (s2p ''shipping'',
      s2p ''We offer free shipping on orders over $50. Standard shipping takes 3-5 business days, and express shipping takes 1-2 business days.''),
     (s2p ''returns'',
      s2p ''We accept returns within 30 days of purchase. Items must be unused and in original packaging. Contact us to initiate a return.''),
     (s2p ''payment'',
      s2p ''We accept all major credit cards, PayPal, Apple Pay, and Google Pay. All transactions are secure and encrypted.'')]"

text \<open>
  The loop of \<open>check_faq\<close> over \<open>FAQ_RESPONSES.items()\<close>: the first keyword that is a
  substring of the lowered message returns its response.
\<close>

fun faq_loop :: "(pystr \<times> pystr) list \<Rightarrow> pystr \<Rightarrow> pystr option" where
  "faq_loop [] message_lower = None"
| "faq_loop ((keyword, response) # items) message_lower =
     (if sublist keyword message_lower then Some response else faq_loop items message_lower)"

definition check_faq :: "(pystr \<Rightarrow> nat \<Rightarrow> pystr) \<Rightarrow> pystr \<Rightarrow> pystr option" where
  "check_faq ulower message_text =
     (let message_lower = str_lower ulower message_text
      in faq_loop FAQ_RESPONSES message_lower)"

text \<open>
  The words of the specification: a keyword occurs in a text as a case-insensitive
  substring when, both lowered, the keyword is a contiguous part of the text.
\<close>

definition occurs_ci :: "(pystr \<Rightarrow> nat \<Rightarrow> pystr) \<Rightarrow> pystr \<Rightarrow> pystr \<Rightarrow> bool" where
  "occurs_ci ulower keyword text \<longleftrightarrow> sublist (str_lower ulower keyword) (str_lower ulower text)"

definition faq_keywords :: "pystr list" where
  "faq_keywords = map fst FAQ_RESPONSES"

section \<open>The outside world and effects\<close>

text \<open>
  The objects the two libraries hand back. A \<open>response\<close> of \<open>requests\<close> has its status
  code, reason phrase and URL, and what \<open>response.json()\<close> gives (the decoded body, or the
  exception it raises). A chat completion has its choices, each with the content of its
  message, which may be \<open>None\<close>.
\<close>

record response =
  status_code :: int
  reason :: pystr
  resp_url :: pystr
  json_result :: "py_exception + json"

record completion_request =
  model :: pystr
  messages :: "(pystr \<times> pystr) list"
  max_tokens :: int
  temperature :: rat

datatype completion = ChatCompletion (choices: "pystr option list")

text \<open>
  The environment of one invocation: the configured token, the outcome of
  \<open>requests.post(url, json=payload, timeout=10)\<close> (a response, or the exception raised:
  a timeout and a connection failure are exceptions of \<open>requests\<close>), the outcome of
  \<open>client.chat.completions.create\<close>, and two parts of the Python runtime: the Unicode
  lowering of non-ASCII code points and \<open>str()\<close> of a value that is not a string.
\<close>

record env =
  BOT_TOKEN :: pystr
  requests_post :: "pystr \<Rightarrow> json \<Rightarrow> py_exception + response"
  completions_create :: "completion_request \<Rightarrow> py_exception + completion"
  ulower :: "pystr \<Rightarrow> nat \<Rightarrow> pystr"
  py_str :: "json \<Rightarrow> pystr"

text \<open>
  Every outbound call is recorded. A computation gives its result, a value or the
  exception that leaves it, and the calls it made, in order.
\<close>

datatype event =
    HttpPost pystr json
  | CompletionCall completion_request

type_synonym 'a res = "(py_exception + 'a) \<times> event list"

definition ret :: "'a \<Rightarrow> 'a res" where
  "ret v = (Inr v, [])"

definition lift :: "py_exception + 'a \<Rightarrow> 'a res" where
  "lift r = (r, [])"

definition and_then :: "'a res \<Rightarrow> ('a \<Rightarrow> 'b res) \<Rightarrow> 'b res" where
  "and_then m f =
     (case m of
        (Inl e, t) \<Rightarrow> (Inl e, t)
      | (Inr v, t) \<Rightarrow> (case f v of (r, t') \<Rightarrow> (r, t @ t')))"

text \<open>\<open>try: body except C as e: handler\<close>, where \<open>catches\<close> tells the instances of \<open>C\<close>.\<close>

definition try_except ::
  "'a res \<Rightarrow> (py_exception \<Rightarrow> bool) \<Rightarrow> (py_exception \<Rightarrow> 'a res) \<Rightarrow> 'a res" where
  "try_except body catches handler =
     (case body of
        (Inr v, t) \<Rightarrow> (Inr v, t)
      | (Inl e, t) \<Rightarrow>
          (if catches e then (case handler e of (r, t') \<Rightarrow> (r, t @ t')) else (Inl e, t)))"

definition http_post :: "env \<Rightarrow> pystr \<Rightarrow> json \<Rightarrow> response res" where
  "http_post env url payload = (requests_post env url payload, [HttpPost url payload])"

definition chat_completions_create :: "env \<Rightarrow> completion_request \<Rightarrow> completion res" where
  "chat_completions_create env req = (completions_create env req, [CompletionCall req])"

text \<open>
  \<open>response.raise_for_status()\<close> of \<open>requests\<close>: an \<open>HTTPError\<close> for a status code from
  400 to 599, nothing otherwise.
\<close>

definition raise_for_status :: "response \<Rightarrow> py_exception + unit" where
  "raise_for_status r =
     (if 400 \<le> status_code r \<and> status_code r < 500 then
        Inl (PyException HTTPError
          (str_int (status_code r) @ s2p '' Client Error: '' @ reason r @
           s2p '' for url: '' @ resp_url r))
      else if 500 \<le> status_code r \<and> status_code r < 600 then
        Inl (PyException HTTPError
          (str_int (status_code r) @ s2p '' Server Error: '' @ reason r @
           s2p '' for url: '' @ resp_url r))
      else Inr ())"

section \<open>The program\<close>

definition TELEGRAM_API_URL :: "env \<Rightarrow> pystr" where
  "TELEGRAM_API_URL env = s2p ''https://api.telegram.org/bot'' @ BOT_TOKEN env"

subsection \<open>\<open>get_ai_response\<close>\<close>

definition APOLOGY :: pystr where
  "APOLOGY = s2p ''I apologize, but I'm having trouble processing your request right now. Please try again in a moment or contact our support team directly.''"

definition ai_request :: "pystr \<Rightarrow> completion_request" where
  "ai_request user_message =
     \<lparr>model = s2p ''gpt-3.5-turbo'',
      messages =
        [(s2p ''system'',
          s2p ''You are a helpful and friendly customer support agent. Provide clear, concise, and professional responses to customer inquiries. Be empathetic and solution-oriented. Keep responses under 200 words.''),
         (s2p ''user'', user_message)],
      max_tokens = 300,
      temperature = 7 / 10\<rparr>"

text \<open>\<open>response.choices[0].message.content.strip()\<close>, with the two ways it raises.\<close>

definition first_content_stripped :: "completion \<Rightarrow> py_exception + pystr" where
  "first_content_stripped response =
     (case choices response of
        [] \<Rightarrow> Inl (PyException IndexError (s2p ''list index out of range''))
      | content # _ \<Rightarrow>
          (case content of
             None \<Rightarrow> Inl (attribute_error JNull (s2p ''strip''))
           | Some s \<Rightarrow> Inr (py_strip s)))"

definition get_ai_response :: "env \<Rightarrow> pystr \<Rightarrow> pystr res" where
  "get_ai_response env user_message =
     try_except
       (and_then (chat_completions_create env (ai_request user_message)) (\<lambda>response.
        and_then (lift (first_content_stripped response)) (\<lambda>ai_reply.
        ret ai_reply)))
       is_Exception
       (\<lambda>e. ret APOLOGY)"

subsection \<open>\<open>send_telegram_message\<close>\<close>

definition send_payload :: "json \<Rightarrow> pystr \<Rightarrow> json" where
  "send_payload chat_id text =
     JDict [(s2p ''chat_id'', chat_id), (s2p ''text'', JStr text),
            (s2p ''parse_mode'', JStr (s2p ''HTML''))]"

definition send_url :: "env \<Rightarrow> pystr" where
  "send_url env = TELEGRAM_API_URL env @ s2p ''/sendMessage''"

definition send_telegram_message :: "env \<Rightarrow> json \<Rightarrow> pystr \<Rightarrow> bool res" where
  "send_telegram_message env chat_id text =
     (let url = send_url env;
          payload = send_payload chat_id text
      in try_except
           (and_then (http_post env url payload) (\<lambda>response.
            and_then (lift (raise_for_status response)) (\<lambda>_.
            ret True)))
           is_RequestException
           (\<lambda>e. ret False))"

subsection \<open>\<open>process_message\<close>\<close>

text \<open>The f-string of the welcome message; \<open>{user_name}\<close> formats a string as itself.\<close>

definition format_value :: "env \<Rightarrow> json \<Rightarrow> pystr" where
  "format_value env v = (case v of JStr s \<Rightarrow> s | _ \<Rightarrow> py_str env v)"

definition welcome_message :: "pystr \<Rightarrow> pystr" where
  "welcome_message name =
     [128075] @ s2p '' Hello '' @ name @ s2p ''! Welcome to our customer support.'' @
     [10, 10] @ s2p ''I'm here to help you 24/7. You can ask me about:'' @
     [10, 8226] @ s2p '' Business hours'' @
     [10, 8226] @ s2p '' Location'' @
     [10, 8226] @ s2p '' Contact information'' @
     [10, 8226] @ s2p '' Shipping & returns'' @
     [10, 8226] @ s2p '' Payment options'' @
     [10, 8226] @ s2p '' Or anything else!'' @
     [10, 10] @ s2p ''How can I assist you today?''"

text \<open>Truthiness of an \<open>Optional[str]\<close>: neither \<open>None\<close> nor the empty string.\<close>

fun str_option_truthy :: "pystr option \<Rightarrow> bool" where
  "str_option_truthy None = False"
| "str_option_truthy (Some s) = (s \<noteq> [])"

text \<open>
  The part of \<open>process_message\<close> after the guard. \<open>message_text.startswith\<close> exists on a
  string only; the FAQ response counts when it is truthy (not \<open>None\<close>, not empty).
\<close>

definition respond :: "env \<Rightarrow> json \<Rightarrow> json \<Rightarrow> json \<Rightarrow> unit res" where
  "respond env chat_id message_text user_name =
     (case message_text of
        JStr text \<Rightarrow>
          (if prefix (s2p ''/start'') text then
             and_then (send_telegram_message env chat_id
                         (welcome_message (format_value env user_name))) (\<lambda>_.
             ret ())
           else
             (let faq_response = check_faq (ulower env) text
              in if str_option_truthy faq_response then
                   and_then (send_telegram_message env chat_id (the faq_response)) (\<lambda>_.
                   ret ())
                 else
                   and_then (get_ai_response env text) (\<lambda>ai_response.
                   and_then (send_telegram_message env chat_id ai_response) (\<lambda>_.
                   ret ()))))
      | _ \<Rightarrow> lift (Inl (attribute_error message_text (s2p ''startswith''))))"

definition process_message :: "env \<Rightarrow> json \<Rightarrow> unit res" where
  "process_message env message =
     and_then (lift (py_get message (s2p ''chat'') (JDict []))) (\<lambda>chat.
     and_then (lift (py_get chat (s2p ''id'') JNull)) (\<lambda>chat_id.
     and_then (lift (py_get message (s2p ''text'') (JStr []))) (\<lambda>message_text.
     and_then (lift (py_get message (s2p ''from'') (JDict []))) (\<lambda>sender.
     and_then (lift (py_get sender (s2p ''first_name'') (JStr (s2p ''there'')))) (\<lambda>user_name.
     if \<not> py_truthy chat_id \<or> \<not> py_truthy message_text then ret ()
     else respond env chat_id message_text user_name)))))"

subsection \<open>The endpoints\<close>


text \<open>
  \<open>webhook\<close>: its argument is the outcome of \<open>await request.json()\<close>, the decoded body or
  the exception of a body that does not parse.
\<close>

definition webhook :: "env \<Rightarrow> py_exception + json \<Rightarrow> json res" where
  "webhook env request_json =
     try_except
       (and_then (lift request_json) (\<lambda>update_data.
        and_then (lift (py_get update_data (s2p ''message'') JNull)) (\<lambda>message.
        and_then (if py_truthy message then process_message env message else ret ()) (\<lambda>_.
        ret (JDict [(s2p ''status'', JStr (s2p ''ok''))])))))
       is_Exception
       (\<lambda>e. ret (JDict [(s2p ''status'', JStr (s2p ''error'')),
                         (s2p ''message'', JStr (exc_str e))]))"

text \<open>
  What FastAPI answers for a handler: status 200 with the returned value as the body, the
  status code and detail of an \<open>HTTPException\<close>, and 500 for any other exception.
\<close>

record http_response =
  http_status :: int
  http_body :: json

definition fastapi_response :: "py_exception + json \<Rightarrow> http_response" where
  "fastapi_response r =
     (case r of
        Inr body \<Rightarrow> \<lparr>http_status = 200, http_body = body\<rparr>
      | Inl (HTTPException code detail) \<Rightarrow>
          \<lparr>http_status = code, http_body = JDict [(s2p ''detail'', JStr detail)]\<rparr>
      | Inl (PyException c m) \<Rightarrow>
          \<lparr>http_status = 500, http_body = JStr (s2p ''Internal Server Error'')\<rparr>)"

section \<open>Reading a message record\<close>

text \<open>
  The fields of a message record as the specification names them: \<open>chat.id\<close>, \<open>text\<close>
  and \<open>from.first_name\<close>. A field is absent when its key (or the object holding it) is
  not there.
\<close>

definition field :: "json \<Rightarrow> pystr \<Rightarrow> json option" where
  "field v key = (case v of JDict kvs \<Rightarrow> map_of kvs key | _ \<Rightarrow> None)"

definition chat_id_of :: "json \<Rightarrow> json option" where
  "chat_id_of message =
     (case field message (s2p ''chat'') of Some chat \<Rightarrow> field chat (s2p ''id'') | None \<Rightarrow> None)"

definition text_of :: "json \<Rightarrow> json option" where
  "text_of message = field message (s2p ''text'')"

definition first_name_of :: "json \<Rightarrow> json option" where
  "first_name_of message =
     (case field message (s2p ''from'') of
        Some sender \<Rightarrow> field sender (s2p ''first_name'')
      | None \<Rightarrow> None)"

text \<open>
  A message record of the data model: an object whose \<open>chat\<close> and \<open>from\<close>, when there, are
  objects, whose chat identifier, when there, is an integer, and whose text and sender
  name, when there, are strings.
\<close>

definition is_object_or_absent :: "json option \<Rightarrow> bool" where
  "is_object_or_absent v = (case v of None \<Rightarrow> True | Some (JDict kvs) \<Rightarrow> True | _ \<Rightarrow> False)"

definition is_int_or_absent :: "json option \<Rightarrow> bool" where
  "is_int_or_absent v = (case v of None \<Rightarrow> True | Some (JInt n) \<Rightarrow> True | _ \<Rightarrow> False)"

definition is_str_or_absent :: "json option \<Rightarrow> bool" where
  "is_str_or_absent v = (case v of None \<Rightarrow> True | Some (JStr s) \<Rightarrow> True | _ \<Rightarrow> False)"

definition message_record :: "json \<Rightarrow> bool" where
  "message_record message \<longleftrightarrow>
     (case message of JDict kvs \<Rightarrow> True | _ \<Rightarrow> False) \<and>
     is_object_or_absent (field message (s2p ''chat'')) \<and>
     is_int_or_absent (chat_id_of message) \<and>
     is_str_or_absent (text_of message) \<and>
     is_object_or_absent (field message (s2p ''from'')) \<and>
     is_str_or_absent (first_name_of message)"

text \<open>The sender's display name, with the placeholder when it is absent.\<close>

definition sender_name :: "env \<Rightarrow> json \<Rightarrow> pystr" where
  "sender_name env message =
     (case first_name_of message of Some v \<Rightarrow> format_value env v | None \<Rightarrow> s2p ''there'')"

text \<open>The outbound sends of a trace: the posts to \<open>sendMessage\<close>.\<close>

fun is_send :: "env \<Rightarrow> event \<Rightarrow> bool" where
  "is_send env (HttpPost url payload) = (url = send_url env)"
| "is_send env (CompletionCall req) = False"

fun is_completion :: "event \<Rightarrow> bool" where
  "is_completion (CompletionCall req) = True"
| "is_completion (HttpPost url payload) = False"

section \<open>Example environments\<close>

text \<open>
  Concrete environments for evaluating the program: every post has the given outcome, every
  completion call has the given outcome, non-ASCII code points lower to themselves.
\<close>

definition example_response :: "int \<Rightarrow> response" where
  "example_response status =
     \<lparr>status_code = status, reason = s2p ''reason'',
      resp_url = s2p ''https://api.telegram.org/'',
      json_result = Inr (JDict [(s2p ''ok'', JBool True)])\<rparr>"

definition example_env :: "py_exception + response \<Rightarrow> py_exception + completion \<Rightarrow> env" where
  "example_env post_outcome completion_outcome =
     \<lparr>BOT_TOKEN = s2p ''TOKEN'',
      requests_post = (\<lambda>url payload. post_outcome),
      completions_create = (\<lambda>req. completion_outcome),
      ulower = keep_non_ascii,
      py_str = (\<lambda>v. s2p ''value'')\<rparr>"

definition example_timeout :: py_exception where
  "example_timeout = PyException Timeout (s2p ''Read timed out.'')"

definition example_start_message :: "int \<Rightarrow> json" where
  "example_start_message chat_id =
     JDict [(s2p ''chat'', JDict [(s2p ''id'', JInt chat_id)]),
            (s2p ''text'', JStr (s2p ''/start'')),
            (s2p ''from'', JDict [(s2p ''first_name'', JStr (s2p ''Ana''))])]"

section \<open>Properties of the FAQ matcher\<close>

lemma concat_map_singleton: "concat (map (\<lambda>x. [g x]) xs) = map g xs"
  by (induction xs) simp_all

lemma str_lower_ascii:
  assumes "\<forall>c\<in>set s. c < 128"
  shows "str_lower ul s = map ascii_lower s"
proof -
  have "map (lower_at ul s) [0..<length s] = map (\<lambda>i. [ascii_lower (s ! i)]) [0..<length s]"
    using assms by (intro map_cong) (simp_all add: lower_at_def)
  then have "str_lower ul s = concat (map (\<lambda>i. [ascii_lower (s ! i)]) [0..<length s])"
    unfolding str_lower_def by (rule arg_cong)
  also have "\<dots> = map (\<lambda>i. ascii_lower (s ! i)) [0..<length s]"
    by (rule concat_map_singleton)
  also have "\<dots> = map ascii_lower (map ((!) s) [0..<length s])"
    by simp
  also have "\<dots> = map ascii_lower s"
    by (simp only: map_nth)
  finally show ?thesis .
qed

lemma faq_keywords_eq:
  "faq_keywords = [s2p ''hours'', s2p ''location'', s2p ''contact'', s2p ''shipping'', s2p ''returns'', s2p ''payment'']"
  by (simp add: faq_keywords_def FAQ_RESPONSES_def)

lemma keyword_lower: "k \<in> set faq_keywords \<Longrightarrow> str_lower ul k = k"
  unfolding faq_keywords_eq
  by (auto simp: str_lower_ascii s2p_def ascii_lower_def)



lemma faq_loop_first:
  "n < length items \<Longrightarrow> sublist (fst (items ! n)) ml \<Longrightarrow>
   \<forall>m<n. \<not> sublist (fst (items ! m)) ml \<Longrightarrow> faq_loop items ml = Some (snd (items ! n))"
proof (induction items ml arbitrary: n rule: faq_loop.induct)
  case (1 ml)
  then show ?case by simp
next
  case (2 keyword response items ml)
  show ?case
  proof (cases n)
    case 0
    with 2 show ?thesis by simp
  next
    case (Suc n')
    with 2 have "\<not> sublist keyword ml" by fastforce
    moreover have "faq_loop items ml = Some (snd (items ! n'))"
      using 2 Suc by (intro "2.IH") auto
    ultimately show ?thesis using Suc by simp
  qed
qed



lemma faq_answers_distinct: "distinct (map snd FAQ_RESPONSES)"
  by (simp add: FAQ_RESPONSES_def s2p_def)

lemma occurs_ci_keyword:
  "k \<in> set faq_keywords \<Longrightarrow> occurs_ci ul k t \<longleftrightarrow> sublist k (str_lower ul t)"
  by (simp add: occurs_ci_def keyword_lower)



lemma check_faq_first:
  assumes "n < length FAQ_RESPONSES" "occurs_ci ul (faq_keywords ! n) t"
    "\<forall>m<n. \<not> occurs_ci ul (faq_keywords ! m) t"
  shows "check_faq ul t = Some (snd (FAQ_RESPONSES ! n))"
proof -
  have kw: "faq_keywords ! m \<in> set faq_keywords" "faq_keywords ! m = fst (FAQ_RESPONSES ! m)"
    if "m \<le> n" for m
    using that assms(1) by (simp_all add: faq_keywords_def)
  have "sublist (fst (FAQ_RESPONSES ! n)) (str_lower ul t)"
    using assms(2) kw[of n] by (simp add: occurs_ci_keyword)
  moreover have "\<forall>m<n. \<not> sublist (fst (FAQ_RESPONSES ! m)) (str_lower ul t)"
  proof (intro allI impI)
    fix m assume "m < n"
    with assms(3) have "\<not> occurs_ci ul (faq_keywords ! m) t"
      by blast
    with kw[of m] \<open>m < n\<close> show "\<not> sublist (fst (FAQ_RESPONSES ! m)) (str_lower ul t)"
      by (simp add: occurs_ci_keyword)
  qed
  ultimately show ?thesis
    unfolding check_faq_def Let_def using assms(1) by (intro faq_loop_first)
qed

lemmas faq_eval = occurs_ci_def check_faq_def str_lower_ascii s2p_def ascii_lower_def
  FAQ_RESPONSES_def faq_keywords_def sublist_code




text \<open>
  Claim C2. When two configured keywords occur in a message text, \<open>check_faq\<close> returns the
  answer of the matching keyword that comes first in the order of the table, which is
  hours, location, contact, shipping, returns, payment: there is a least matching
  position \<open>n\<close>, no later than the earlier of the two, and its answer is returned; the
  answer of the later keyword is not. Where the keywords stand in the text plays no role.
\<close>

theorem check_faq_table_order:
  assumes "i < j" and "j < length faq_keywords"
    and "occurs_ci ul (faq_keywords ! i) t" and "occurs_ci ul (faq_keywords ! j) t"
  shows "faq_keywords = [s2p ''hours'', s2p ''location'', s2p ''contact'', s2p ''shipping'',
           s2p ''returns'', s2p ''payment''] \<and>
         (\<exists>n\<le>i. occurs_ci ul (faq_keywords ! n) t \<and>
            (\<forall>m<n. \<not> occurs_ci ul (faq_keywords ! m) t) \<and>
            check_faq ul t = Some (snd (FAQ_RESPONSES ! n))) \<and>
         check_faq ul t \<noteq> Some (snd (FAQ_RESPONSES ! j))"
proof -
  define n where "n = (LEAST n. occurs_ci ul (faq_keywords ! n) t)"
  have n_occ: "occurs_ci ul (faq_keywords ! n) t"
    unfolding n_def using assms(3) by (rule LeastI)
  have n_le: "n \<le> i"
    unfolding n_def using assms(3) by (rule Least_le)
  have n_least: "\<forall>m<n. \<not> occurs_ci ul (faq_keywords ! m) t"
    unfolding n_def using not_less_Least by blast
  have len: "length FAQ_RESPONSES = length faq_keywords"
    by (simp add: faq_keywords_def)
  have n_lt: "n < length FAQ_RESPONSES"
    using n_le assms(1,2) len by simp
  have ans: "check_faq ul t = Some (snd (FAQ_RESPONSES ! n))"
    using n_lt n_occ n_least by (rule check_faq_first)
  have "n \<noteq> j"
    using n_le assms(1) by simp
  moreover have "n < length (map snd FAQ_RESPONSES)" "j < length (map snd FAQ_RESPONSES)"
    using n_lt assms(2) len by simp_all
  ultimately have "map snd FAQ_RESPONSES ! n \<noteq> map snd FAQ_RESPONSES ! j"
    using faq_answers_distinct by (simp only: nth_eq_iff_index_eq not_False_eq_True)
  then have "snd (FAQ_RESPONSES ! n) \<noteq> snd (FAQ_RESPONSES ! j)"
    using n_lt assms(2) len by simp
  with ans have differ: "check_faq ul t \<noteq> Some (snd (FAQ_RESPONSES ! j))"
    by simp
  have first: "\<exists>n\<le>i. occurs_ci ul (faq_keywords ! n) t \<and>
      (\<forall>m<n. \<not> occurs_ci ul (faq_keywords ! m) t) \<and>
      check_faq ul t = Some (snd (FAQ_RESPONSES ! n))"
    using ans n_occ n_le n_least by blast
  from faq_keywords_eq first differ show ?thesis
    by (intro conjI)
qed

theorem check_faq_table_order_witness:
  "(0::nat) < 5 \<and> 5 < length faq_keywords \<and>
   occurs_ci keep_non_ascii (faq_keywords ! 0) (s2p ''PAYMENT first, then hours'') \<and>
   occurs_ci keep_non_ascii (faq_keywords ! 5) (s2p ''PAYMENT first, then hours'') \<and>
   faq_keywords ! 0 = s2p ''hours'' \<and> faq_keywords ! 5 = s2p ''payment'' \<and>
   check_faq keep_non_ascii (s2p ''PAYMENT first, then hours'') = Some (snd (FAQ_RESPONSES ! 0))"
proof -
  let ?t = "s2p ''PAYMENT first, then hours''"
  have h1: "(0::nat) < 5" by simp
  have h2: "5 < length faq_keywords" by (simp add: faq_keywords_def FAQ_RESPONSES_def)
  have h3: "occurs_ci keep_non_ascii (faq_keywords ! 0) ?t" by (simp add: faq_eval)
  have h4: "occurs_ci keep_non_ascii (faq_keywords ! 5) ?t" by (simp add: faq_eval)
  have kw: "faq_keywords ! 0 = s2p ''hours''" "faq_keywords ! 5 = s2p ''payment''"
    by (simp_all add: faq_keywords_def FAQ_RESPONSES_def)
  from check_faq_table_order [OF h1 h2 h3 h4]
  have "check_faq keep_non_ascii ?t = Some (snd (FAQ_RESPONSES ! 0))"
    by auto
  with h1 h2 h3 h4 kw show ?thesis
    by blast
qed

section \<open>Properties of the program\<close>

lemma and_then_Inr: "and_then (Inr v, t) f = (fst (f v), t @ snd (f v))"
  by (simp add: and_then_def split: prod.splits)

lemma and_then_Inl: "and_then (Inl e, t) f = (Inl e, t)"
  by (simp add: and_then_def)

lemma and_then_lift_Inr: "and_then (lift (Inr v)) f = f v"
  by (simp add: and_then_def lift_def split: prod.splits)

lemma and_then_lift_Inl: "and_then (lift (Inl e)) f = (Inl e, [])"
  by (simp add: and_then_def lift_def)

lemma try_except_Inr: "try_except (Inr v, t) catches handler = (Inr v, t)"
  by (simp add: try_except_def)

lemma try_except_Inl:
  "try_except (Inl e, t) catches handler =
     (if catches e then (fst (handler e), t @ snd (handler e)) else (Inl e, t))"
  by (simp add: try_except_def split: prod.splits)

lemmas res_simps = and_then_Inr and_then_Inl and_then_lift_Inr and_then_lift_Inl
  try_except_Inr try_except_Inl ret_def

lemma get_ai_response_cases:
  "get_ai_response env um =
     ((case completions_create env (ai_request um) of
         Inl e \<Rightarrow> Inr APOLOGY
       | Inr response \<Rightarrow>
           (case first_content_stripped response of
              Inl e \<Rightarrow> Inr APOLOGY
            | Inr reply \<Rightarrow> Inr reply)),
      [CompletionCall (ai_request um)])"
  by (simp add: get_ai_response_def chat_completions_create_def res_simps
      split: sum.splits)

lemma py_strip_decompose:
  "\<exists>l r. s = l @ py_strip s @ r \<and> (\<forall>c\<in>set l. py_isspace c) \<and> (\<forall>c\<in>set r. py_isspace c)"
proof -
  define d where "d = dropWhile py_isspace s"
  have s: "s = takeWhile py_isspace s @ d"
    by (simp add: d_def)
  have "rev (takeWhile py_isspace (rev d) @ dropWhile py_isspace (rev d)) = rev (rev d)"
    by (simp only: takeWhile_dropWhile_id)
  then have "rev (dropWhile py_isspace (rev d)) @ rev (takeWhile py_isspace (rev d)) = d"
    by (simp only: rev_append rev_rev_ident)
  then have d: "d = py_strip s @ rev (takeWhile py_isspace (rev d))"
    unfolding py_strip_def d_def by (rule sym)
  have "s = takeWhile py_isspace s @ py_strip s @ rev (takeWhile py_isspace (rev d))"
    using s d by simp
  moreover have "\<forall>c\<in>set (takeWhile py_isspace s). py_isspace c"
    by (auto dest: set_takeWhileD)
  moreover have "\<forall>c\<in>set (rev (takeWhile py_isspace (rev d))). py_isspace c"
    by (auto dest: set_takeWhileD)
  ultimately show ?thesis
    by blast
qed

lemma py_strip_ends:
  assumes "py_strip s \<noteq> []"
  shows "\<not> py_isspace (hd (py_strip s))" and "\<not> py_isspace (last (py_strip s))"
proof -
  define d where "d = dropWhile py_isspace s"
  define b where "b = dropWhile py_isspace (rev d)"
  have strip: "py_strip s = rev b"
    by (simp add: py_strip_def d_def b_def)
  with assms have b: "b \<noteq> []"
    by simp
  then have "\<not> py_isspace (hd b)"
    unfolding b_def by (rule hd_dropWhile)
  then show "\<not> py_isspace (last (py_strip s))"
    using b by (simp add: strip last_rev)
  have "rev (takeWhile py_isspace (rev d) @ dropWhile py_isspace (rev d)) = rev (rev d)"
    by (simp only: takeWhile_dropWhile_id)
  then have "rev b @ rev (takeWhile py_isspace (rev d)) = d"
    unfolding b_def by (simp only: rev_append rev_rev_ident)
  then obtain r where d: "d = rev b @ r"
    by (rule that [OF sym])
  with b have "d \<noteq> []" and "hd d = hd (rev b)"
    by (simp_all add: hd_append)
  moreover have "d \<noteq> [] \<Longrightarrow> \<not> py_isspace (hd d)"
    unfolding d_def by (rule hd_dropWhile)
  ultimately show "\<not> py_isspace (hd (py_strip s))"
    by (simp add: strip)
qed

text \<open>
  Claim C3. \<open>get_ai_response\<close> always returns a string to its caller, never an exception.
  When the call to the completion provider raises, and when extracting the reply raises (no
  choice, or a content that is \<open>None\<close>), it returns the fixed apology, the string spelled
  out below, as it is. When the provider
  answers with a first choice that has a content, it returns that content stripped: what
  was removed on either side is whitespace only, and what remains neither begins nor ends
  with whitespace.
\<close>

theorem get_ai_response_total:
  "(\<exists>reply. fst (get_ai_response env user_message) = Inr reply) \<and>
   (\<forall>e. completions_create env (ai_request user_message) = Inl e \<longrightarrow>
      fst (get_ai_response env user_message) =
        Inr (s2p ''I apologize, but I'm having trouble processing your request right now. Please try again in a moment or contact our support team directly.'')) \<and>
   (\<forall>response e. completions_create env (ai_request user_message) = Inr response \<longrightarrow>
      first_content_stripped response = Inl e \<longrightarrow>
      fst (get_ai_response env user_message) =
        Inr (s2p ''I apologize, but I'm having trouble processing your request right now. Please try again in a moment or contact our support team directly.'')) \<and>
   (\<forall>content others.
      completions_create env (ai_request user_message) =
        Inr (ChatCompletion (Some content # others)) \<longrightarrow>
      fst (get_ai_response env user_message) = Inr (py_strip content) \<and>
      (\<exists>l r. content = l @ py_strip content @ r \<and>
         (\<forall>c\<in>set l. py_isspace c) \<and> (\<forall>c\<in>set r. py_isspace c)) \<and>
      (py_strip content \<noteq> [] \<longrightarrow>
         \<not> py_isspace (hd (py_strip content)) \<and> \<not> py_isspace (last (py_strip content))))"
proof (intro conjI allI impI)
  show "\<exists>reply. fst (get_ai_response env user_message) = Inr reply"
    by (simp add: get_ai_response_cases split: sum.splits)
next
  fix e
  assume "completions_create env (ai_request user_message) = Inl e"
  then show "fst (get_ai_response env user_message) =
      Inr (s2p ''I apologize, but I'm having trouble processing your request right now. Please try again in a moment or contact our support team directly.'')"
    by (simp add: get_ai_response_cases APOLOGY_def)
next
  fix response e
  assume "completions_create env (ai_request user_message) = Inr response"
    and "first_content_stripped response = Inl e"
  then show "fst (get_ai_response env user_message) =
      Inr (s2p ''I apologize, but I'm having trouble processing your request right now. Please try again in a moment or contact our support team directly.'')"
    by (simp add: get_ai_response_cases APOLOGY_def)
next
  fix content others
  assume "completions_create env (ai_request user_message) =
    Inr (ChatCompletion (Some content # others))"
  then show "fst (get_ai_response env user_message) = Inr (py_strip content)"
    by (simp add: get_ai_response_cases first_content_stripped_def)
next
  fix content :: pystr
  show "\<exists>l r. content = l @ py_strip content @ r \<and>
    (\<forall>c\<in>set l. py_isspace c) \<and> (\<forall>c\<in>set r. py_isspace c)"
    by (rule py_strip_decompose)
next
  fix content :: pystr
  assume "py_strip content \<noteq> []"
  then show "\<not> py_isspace (hd (py_strip content))"
    by (rule py_strip_ends)
next
  fix content :: pystr
  assume "py_strip content \<noteq> []"
  then show "\<not> py_isspace (last (py_strip content))"
    by (rule py_strip_ends)
qed

theorem get_ai_response_total_witness:
  "fst (get_ai_response (example_env (Inl example_timeout) (Inl example_timeout)) (s2p ''help'')) =
     Inr (s2p ''I apologize, but I'm having trouble processing your request right now. Please try again in a moment or contact our support team directly.'') \<and>
   fst (get_ai_response (example_env (Inl example_timeout) (Inr (ChatCompletion [None])))
     (s2p ''help'')) =
     Inr (s2p ''I apologize, but I'm having trouble processing your request right now. Please try again in a moment or contact our support team directly.'') \<and>
   fst (get_ai_response (example_env (Inl example_timeout)
     (Inr (ChatCompletion [Some (s2p ''  Hello there! '' @ [10])]))) (s2p ''help'')) =
     Inr (s2p ''Hello there!'')"
proof -
  let ?e1 = "example_env (Inl example_timeout) (Inl example_timeout)"
  let ?e2 = "example_env (Inl example_timeout) (Inr (ChatCompletion [None]))"
  let ?e3 = "example_env (Inl example_timeout)
     (Inr (ChatCompletion [Some (s2p ''  Hello there! '' @ [10])]))"
  have h1: "completions_create ?e1 (ai_request (s2p ''help'')) = Inl example_timeout"
    by (simp add: example_env_def)
  have h2: "completions_create ?e2 (ai_request (s2p ''help'')) = Inr (ChatCompletion [None])"
    by (simp add: example_env_def)
  have h2': "first_content_stripped (ChatCompletion [None]) = Inl (attribute_error JNull (s2p ''strip''))"
    by (simp add: first_content_stripped_def)
  have h3: "completions_create ?e3 (ai_request (s2p ''help'')) =
      Inr (ChatCompletion (Some (s2p ''  Hello there! '' @ [10]) # []))"
    by (simp add: example_env_def)
  have strip: "py_strip (s2p ''  Hello there! '' @ [10]) = s2p ''Hello there!''"
    by (simp add: py_strip_def s2p_def py_isspace_def)
  from get_ai_response_total [of ?e1 "s2p ''help''"] h1
  have "fst (get_ai_response ?e1 (s2p ''help'')) =
      Inr (s2p ''I apologize, but I'm having trouble processing your request right now. Please try again in a moment or contact our support team directly.'')"
    by blast
  moreover from get_ai_response_total [of ?e2 "s2p ''help''"] h2 h2'
  have "fst (get_ai_response ?e2 (s2p ''help'')) =
      Inr (s2p ''I apologize, but I'm having trouble processing your request right now. Please try again in a moment or contact our support team directly.'')"
    by blast
  moreover from get_ai_response_total [of ?e3 "s2p ''help''"] h3
  have "fst (get_ai_response ?e3 (s2p ''help'')) = Inr (py_strip (s2p ''  Hello there! '' @ [10]))"
    by blast
  ultimately show ?thesis
    by (simp only: strip)
qed

lemma send_telegram_message_cases:
  "send_telegram_message env chat_id text =
     ((case requests_post env (send_url env) (send_payload chat_id text) of
         Inl e \<Rightarrow> if is_RequestException e then Inr False else Inl e
       | Inr response \<Rightarrow>
           if 400 \<le> status_code response \<and> status_code response < 600 then Inr False
           else Inr True),
      [HttpPost (send_url env) (send_payload chat_id text)])"
  by (simp add: send_telegram_message_def http_post_def raise_for_status_def res_simps
      split: sum.splits)

text \<open>
  Claim C4, as amended. When \<open>requests.post\<close> returns a response, \<open>send_telegram_message\<close>
  returns a boolean: \<open>True\<close> exactly when the status code is outside 400 to 599, so for
  every 2xx status. When the post raises an exception of the \<open>RequestException\<close> family (a
  timeout, a connection failure), it returns \<open>False\<close>. An exception outside that family is
  not caught.
\<close>

theorem send_telegram_message_result:
  "(\<forall>response. requests_post env (send_url env) (send_payload chat_id text) = Inr response \<longrightarrow>
      fst (send_telegram_message env chat_id text) =
        Inr (\<not> (400 \<le> status_code response \<and> status_code response < 600))) \<and>
   (\<forall>response. requests_post env (send_url env) (send_payload chat_id text) = Inr response \<longrightarrow>
      200 \<le> status_code response \<longrightarrow> status_code response < 300 \<longrightarrow>
      fst (send_telegram_message env chat_id text) = Inr True) \<and>
   (\<forall>e. requests_post env (send_url env) (send_payload chat_id text) = Inl e \<longrightarrow>
      is_RequestException e \<longrightarrow> fst (send_telegram_message env chat_id text) = Inr False) \<and>
   (\<forall>e. requests_post env (send_url env) (send_payload chat_id text) = Inl e \<longrightarrow>
      \<not> is_RequestException e \<longrightarrow> fst (send_telegram_message env chat_id text) = Inl e)"
  by (simp add: send_telegram_message_cases)

theorem send_telegram_message_result_witness:
  "fst (send_telegram_message (example_env (Inr (example_response 200)) (Inl example_timeout))
     (JInt 42) (s2p ''hello'')) = Inr True \<and>
   fst (send_telegram_message (example_env (Inr (example_response 403)) (Inl example_timeout))
     (JInt 42) (s2p ''hello'')) = Inr False \<and>
   fst (send_telegram_message (example_env (Inl example_timeout) (Inl example_timeout))
     (JInt 42) (s2p ''hello'')) = Inr False \<and>
   fst (send_telegram_message
     (example_env (Inl (PyException OtherException (s2p ''boom''))) (Inl example_timeout))
     (JInt 42) (s2p ''hello'')) = Inl (PyException OtherException (s2p ''boom''))"
proof -
  let ?e1 = "example_env (Inr (example_response 200)) (Inl example_timeout)"
  let ?e2 = "example_env (Inr (example_response 403)) (Inl example_timeout)"
  let ?e3 = "example_env (Inl example_timeout) (Inl example_timeout)"
  let ?e4 = "example_env (Inl (PyException OtherException (s2p ''boom''))) (Inl example_timeout)"
  let ?p = "send_payload (JInt 42) (s2p ''hello'')"
  have h1: "requests_post ?e1 (send_url ?e1) ?p = Inr (example_response 200)"
    and s1: "(200::int) \<le> status_code (example_response 200)"
      "status_code (example_response 200) < 300"
    by (simp_all add: example_env_def example_response_def)
  have h2: "requests_post ?e2 (send_url ?e2) ?p = Inr (example_response 403)"
    and s2: "status_code (example_response 403) = 403"
    by (simp_all add: example_env_def example_response_def)
  have h3: "requests_post ?e3 (send_url ?e3) ?p = Inl example_timeout"
    and r3: "is_RequestException example_timeout"
    by (simp_all add: example_env_def example_timeout_def)
  have h4: "requests_post ?e4 (send_url ?e4) ?p = Inl (PyException OtherException (s2p ''boom''))"
    and r4: "\<not> is_RequestException (PyException OtherException (s2p ''boom''))"
    by (simp_all add: example_env_def)
  from send_telegram_message_result [of ?e1 "JInt 42" "s2p ''hello''"] h1 s1
  have "fst (send_telegram_message ?e1 (JInt 42) (s2p ''hello'')) = Inr True"
    by blast
  moreover from send_telegram_message_result [of ?e2 "JInt 42" "s2p ''hello''"] h2
  have "fst (send_telegram_message ?e2 (JInt 42) (s2p ''hello'')) =
      Inr (\<not> (400 \<le> status_code (example_response 403) \<and> status_code (example_response 403) < 600))"
    by blast
  then have "fst (send_telegram_message ?e2 (JInt 42) (s2p ''hello'')) = Inr False"
    by (simp add: s2)
  moreover from send_telegram_message_result [of ?e3 "JInt 42" "s2p ''hello''"] h3 r3
  have "fst (send_telegram_message ?e3 (JInt 42) (s2p ''hello'')) = Inr False"
    by blast
  moreover from send_telegram_message_result [of ?e4 "JInt 42" "s2p ''hello''"] h4 r4
  have "fst (send_telegram_message ?e4 (JInt 42) (s2p ''hello'')) =
      Inl (PyException OtherException (s2p ''boom''))"
    by blast
  ultimately show ?thesis
    by blast
qed

text \<open>
  The claim as it was stated has \<open>False\<close> for every status that is not 2xx. A response
  with status 304 is not 2xx, and the function returns \<open>True\<close> for it, since
  \<open>raise_for_status\<close> raises for 4xx and 5xx only.
\<close>

theorem send_telegram_message_not_modified_counterexample:
  "status_code (example_response 304) = 304 \<and>
   requests_post (example_env (Inr (example_response 304)) (Inl example_timeout))
     (send_url (example_env (Inr (example_response 304)) (Inl example_timeout)))
     (send_payload (JInt 42) (s2p ''hello'')) = Inr (example_response 304) \<and>
   fst (send_telegram_message (example_env (Inr (example_response 304)) (Inl example_timeout))
     (JInt 42) (s2p ''hello'')) = Inr True"
  by (simp add: send_telegram_message_cases example_env_def example_response_def)

lemma respond_not_str:
  "\<forall>text. message_text \<noteq> JStr text \<Longrightarrow>
   respond env chat_id message_text user_name =
     (Inl (attribute_error message_text (s2p ''startswith'')), [])"
  by (cases message_text) (auto simp: respond_def lift_def)

lemma respond_start:
  "prefix (s2p ''/start'') text \<Longrightarrow>
   snd (respond env chat_id (JStr text) user_name) =
     [HttpPost (send_url env)
        (send_payload chat_id (welcome_message (format_value env user_name)))]"
  by (simp add: respond_def send_telegram_message_cases res_simps split: sum.splits)

lemma respond_faq:
  "\<not> prefix (s2p ''/start'') text \<Longrightarrow> check_faq (ulower env) text = Some answer \<Longrightarrow>
   answer \<noteq> [] \<Longrightarrow>
   snd (respond env chat_id (JStr text) user_name) =
     [HttpPost (send_url env) (send_payload chat_id answer)]"
  by (simp add: respond_def send_telegram_message_cases res_simps split: sum.splits)

lemma respond_ai:
  "\<not> prefix (s2p ''/start'') text \<Longrightarrow> \<not> str_option_truthy (check_faq (ulower env) text) \<Longrightarrow>
   \<exists>reply. fst (get_ai_response env text) = Inr reply \<and>
     snd (respond env chat_id (JStr text) user_name) =
       [CompletionCall (ai_request text), HttpPost (send_url env) (send_payload chat_id reply)]"
  by (simp add: respond_def get_ai_response_cases send_telegram_message_cases res_simps
      split: sum.splits)

lemma respond_sends: "length (filter (is_send env) (snd (respond env chat_id message_text user_name))) \<le> 1"
proof (cases "\<exists>text. message_text = JStr text")
  case False
  then show ?thesis by (simp add: respond_not_str)
next
  case True
  then obtain body where t: "message_text = JStr body" by blast
  show ?thesis
  proof (cases "prefix (s2p ''/start'') body")
    case True
    then show ?thesis by (simp add: t respond_start)
  next
    case False
    show ?thesis
    proof (cases "str_option_truthy (check_faq (ulower env) body)")
      case True
      then obtain answer where "check_faq (ulower env) body = Some answer" "answer \<noteq> []"
        by (cases "check_faq (ulower env) body") simp_all
      with False show ?thesis by (simp add: t respond_faq)
    next
      case no: False
      from respond_ai [OF False no, of chat_id user_name] show ?thesis
        by (auto simp: t)
    qed
  qed
qed

lemma process_message_unfold:
  "process_message env message =
     (case py_get message (s2p ''chat'') (JDict []) of
        Inl e \<Rightarrow> (Inl e, [])
      | Inr chat \<Rightarrow>
     (case py_get chat (s2p ''id'') JNull of
        Inl e \<Rightarrow> (Inl e, [])
      | Inr chat_id \<Rightarrow>
     (case py_get message (s2p ''text'') (JStr []) of
        Inl e \<Rightarrow> (Inl e, [])
      | Inr message_text \<Rightarrow>
     (case py_get message (s2p ''from'') (JDict []) of
        Inl e \<Rightarrow> (Inl e, [])
      | Inr sender \<Rightarrow>
     (case py_get sender (s2p ''first_name'') (JStr (s2p ''there'')) of
        Inl e \<Rightarrow> (Inl e, [])
      | Inr user_name \<Rightarrow>
          if \<not> py_truthy chat_id \<or> \<not> py_truthy message_text then (Inr (), [])
          else respond env chat_id message_text user_name)))))"
  by (simp add: process_message_def res_simps split: sum.splits)

lemma process_message_sends:
  "length (filter (is_send env) (snd (process_message env message))) \<le> 1"
  using respond_sends [of env]
  by (simp add: process_message_unfold split: sum.splits del: One_nat_def)

lemma py_get_field:
  "py_get (JDict kvs) key dflt = Inr (case field (JDict kvs) key of Some v \<Rightarrow> v | None \<Rightarrow> dflt)"
  by (simp add: field_def split: option.splits)

lemma py_get_dict_Inl [simp]: "py_get (JDict kvs) key dflt \<noteq> Inl e"
  by (simp split: option.splits)

lemma py_get_dict: "\<exists>v. py_get (JDict kvs) key dflt = Inr v"
  by (cases "map_of kvs key") simp_all

lemma process_message_no_reply:
  assumes "\<not> (\<exists>c. chat_id_of message = Some c \<and> py_truthy c) \<or>
           \<not> (\<exists>t. text_of message = Some t \<and> py_truthy t)"
  shows "snd (process_message env message) = []"
proof (cases message)
  case (JDict kvs)
  obtain chat where chat: "py_get message (s2p ''chat'') (JDict []) = Inr chat"
    unfolding JDict using py_get_dict by blast
  obtain message_text where mt: "py_get message (s2p ''text'') (JStr []) = Inr message_text"
    unfolding JDict using py_get_dict by blast
  show ?thesis
  proof (cases "py_get chat (s2p ''id'') JNull")
    case (Inl e)
    then show ?thesis by (simp add: process_message_unfold chat)
  next
    case cid: (Inr chat_id)
    have guard: "\<not> py_truthy chat_id \<or> \<not> py_truthy message_text"
      using assms chat cid mt unfolding JDict
      by (cases chat)
        (auto simp: chat_id_of_def text_of_def field_def split: option.splits)
    then show ?thesis
      by (auto simp: process_message_unfold chat cid mt split: sum.splits)
  qed
qed (simp_all add: process_message_unfold)

lemma process_message_no_reply_returns:
  assumes "\<not> (\<exists>c. chat_id_of message = Some c \<and> py_truthy c) \<or>
           \<not> (\<exists>t. text_of message = Some t \<and> py_truthy t)"
    and "message_record message"
  shows "fst (process_message env message) = Inr ()"
proof -
  from assms(2) obtain kvs where m: "message = JDict kvs"
    by (cases message) (simp_all add: message_record_def)
  from assms(2) have chat: "is_object_or_absent (map_of kvs (s2p ''chat''))"
    and sender: "is_object_or_absent (map_of kvs (s2p ''from''))"
    by (simp_all add: message_record_def m field_def)
  from chat obtain cs where c: "py_get message (s2p ''chat'') (JDict []) = Inr (JDict cs)"
    by (auto simp: m is_object_or_absent_def split: option.splits json.splits)
  from sender obtain fs where f: "py_get message (s2p ''from'') (JDict []) = Inr (JDict fs)"
    by (auto simp: m is_object_or_absent_def split: option.splits json.splits)
  obtain chat_id where cid: "py_get (JDict cs) (s2p ''id'') JNull = Inr chat_id"
    using py_get_dict by blast
  obtain user_name where un:
    "py_get (JDict fs) (s2p ''first_name'') (JStr (s2p ''there'')) = Inr user_name"
    using py_get_dict by blast
  obtain message_text where mt: "py_get message (s2p ''text'') (JStr []) = Inr message_text"
    unfolding m using py_get_dict by blast
  have "\<not> py_truthy chat_id \<or> \<not> py_truthy message_text"
    using assms(1) c cid mt unfolding m
    by (auto simp: chat_id_of_def text_of_def field_def split: option.splits)
  then show ?thesis
    by (auto simp: process_message_unfold c cid mt f un simp del: py_get.simps)
qed

text \<open>
  Claim C5. For a message in which the chat identifier is absent or the text is absent,
  \<open>process_message\<close> makes no outbound call at all, neither a send nor a completion call,
  and for a message record of the data model it returns normally.
\<close>

theorem process_message_absent_field:
  assumes "chat_id_of message = None \<or> text_of message = None"
  shows "snd (process_message env message) = [] \<and>
         (message_record message \<longrightarrow> fst (process_message env message) = Inr ())"
proof -
  from assms have "\<not> (\<exists>c. chat_id_of message = Some c \<and> py_truthy c) \<or>
      \<not> (\<exists>t. text_of message = Some t \<and> py_truthy t)"
    by auto
  then show ?thesis
    by (simp add: process_message_no_reply process_message_no_reply_returns)
qed

lemmas record_eval = chat_id_of_def text_of_def first_name_of_def field_def message_record_def
  is_object_or_absent_def is_int_or_absent_def is_str_or_absent_def s2p_def

theorem process_message_absent_field_witness:
  "chat_id_of (JDict [(s2p ''text'', JStr (s2p ''hello''))]) = None \<and>
   message_record (JDict [(s2p ''text'', JStr (s2p ''hello''))]) \<and>
   process_message (example_env (Inr (example_response 200)) (Inl example_timeout))
     (JDict [(s2p ''text'', JStr (s2p ''hello''))]) = (Inr (), [])"
proof -
  let ?m = "JDict [(s2p ''text'', JStr (s2p ''hello''))]"
  have h: "chat_id_of ?m = None"
    by (simp add: record_eval)
  have r: "message_record ?m"
    by (simp add: record_eval)
  from process_message_absent_field [of ?m "example_env (Inr (example_response 200)) (Inl example_timeout)"] h r
  show ?thesis
    by (simp add: prod_eq_iff)
qed

text \<open>
  Claim C10. Presence is tested by truthiness: a message whose chat identifier is there
  but is 0, or whose text is there but is the empty string, is handled as if the field
  were absent: no outbound call at all, and a normal return for a message record.
\<close>

theorem process_message_falsy_field:
  assumes "chat_id_of message = Some (JInt 0) \<or> text_of message = Some (JStr [])"
  shows "snd (process_message env message) = [] \<and>
         (message_record message \<longrightarrow> fst (process_message env message) = Inr ())"
proof -
  from assms have "\<not> (\<exists>c. chat_id_of message = Some c \<and> py_truthy c) \<or>
      \<not> (\<exists>t. text_of message = Some t \<and> py_truthy t)"
    by auto
  then show ?thesis
    by (simp add: process_message_no_reply process_message_no_reply_returns)
qed

theorem process_message_falsy_field_witness:
  "chat_id_of (JDict [(s2p ''chat'', JDict [(s2p ''id'', JInt 0)]),
      (s2p ''text'', JStr (s2p ''What are your hours?''))]) = Some (JInt 0) \<and>
   process_message (example_env (Inr (example_response 200)) (Inl example_timeout))
     (JDict [(s2p ''chat'', JDict [(s2p ''id'', JInt 0)]),
       (s2p ''text'', JStr (s2p ''What are your hours?''))]) = (Inr (), []) \<and>
   text_of (JDict [(s2p ''chat'', JDict [(s2p ''id'', JInt 42)]), (s2p ''text'', JStr [])]) =
     Some (JStr []) \<and>
   process_message (example_env (Inr (example_response 200)) (Inl example_timeout))
     (JDict [(s2p ''chat'', JDict [(s2p ''id'', JInt 42)]), (s2p ''text'', JStr [])]) =
     (Inr (), [])"
proof -
  let ?e = "example_env (Inr (example_response 200)) (Inl example_timeout)"
  let ?m1 = "JDict [(s2p ''chat'', JDict [(s2p ''id'', JInt 0)]),
      (s2p ''text'', JStr (s2p ''What are your hours?''))]"
  let ?m2 = "JDict [(s2p ''chat'', JDict [(s2p ''id'', JInt 42)]), (s2p ''text'', JStr [])]"
  have h1: "chat_id_of ?m1 = Some (JInt 0)" and r1: "message_record ?m1"
    by (simp_all add: record_eval)
  have h2: "text_of ?m2 = Some (JStr [])" and r2: "message_record ?m2"
    by (simp_all add: record_eval)
  from process_message_falsy_field [of ?m1 ?e] h1 r1
  have "process_message ?e ?m1 = (Inr (), [])"
    by (simp add: prod_eq_iff)
  moreover from process_message_falsy_field [of ?m2 ?e] h2 r2
  have "process_message ?e ?m2 = (Inr (), [])"
    by (simp add: prod_eq_iff)
  ultimately show ?thesis
    using h1 h2 by blast
qed

text \<open>
  Claim C7. One invocation of \<open>process_message\<close> makes at most one outbound send,
  whatever the message and whatever the outcomes of the calls; a failed send is therefore
  not tried again.
\<close>

theorem process_message_at_most_one_send:
  "length (filter (is_send env) (snd (process_message env message))) \<le> 1"
  by (rule process_message_sends)

theorem process_message_at_most_one_send_witness:
  "requests_post (example_env (Inl example_timeout) (Inl example_timeout))
     (send_url (example_env (Inl example_timeout) (Inl example_timeout)))
     (send_payload (JInt 42) APOLOGY) = Inl example_timeout \<and>
   length (filter (is_send (example_env (Inl example_timeout) (Inl example_timeout)))
     (snd (process_message (example_env (Inl example_timeout) (Inl example_timeout))
       (JDict [(s2p ''chat'', JDict [(s2p ''id'', JInt 42)]),
               (s2p ''text'', JStr (s2p ''I need help with my order''))])))) \<le> 1"
  using process_message_at_most_one_send
    [of "example_env (Inl example_timeout) (Inl example_timeout)"
      "JDict [(s2p ''chat'', JDict [(s2p ''id'', JInt 42)]),
              (s2p ''text'', JStr (s2p ''I need help with my order''))]"]
  by (simp add: example_env_def)

lemma sublist_third: "sublist x (a @ b @ x @ c)"
  using sublist_appendI [of x "a @ b" c] by simp

text \<open>
  Claim C6, as amended. For a message whose chat identifier is there and truthy (for an
  integer: not 0), whose text is a string that begins with \<open>/start\<close>, and whose \<open>from\<close>
  is absent or an object, \<open>process_message\<close> makes exactly one outbound call: a send to
  that chat of the welcome template with the sender's display name in it (the placeholder
  when there is none). No completion call is made, and no FAQ answer is sent.
\<close>

theorem process_message_start:
  assumes "chat_id_of message = Some chat_id" and "py_truthy chat_id"
    and "text_of message = Some (JStr body)" and "prefix (s2p ''/start'') body"
    and "is_object_or_absent (field message (s2p ''from''))"
  shows "snd (process_message env message) =
           [HttpPost (send_url env)
              (send_payload chat_id (welcome_message (sender_name env message)))] \<and>
         sublist (sender_name env message) (welcome_message (sender_name env message)) \<and>
         filter is_completion (snd (process_message env message)) = []"
proof -
  from assms(1) obtain kvs where m: "message = JDict kvs"
    by (cases message) (simp_all add: chat_id_of_def field_def)
  from assms(1) obtain cs where chat: "map_of kvs (s2p ''chat'') = Some (JDict cs)"
    and cid: "map_of cs (s2p ''id'') = Some chat_id"
    unfolding m chat_id_of_def field_def
    by (auto split: option.splits json.splits)
  from assms(3) have mt: "map_of kvs (s2p ''text'') = Some (JStr body)"
    by (simp add: m text_of_def field_def)
  have body: "body \<noteq> []"
    using assms(4) by (auto simp: s2p_def)
  have "\<exists>user_name.
      (case py_get message (s2p ''from'') (JDict []) of
         Inl e \<Rightarrow> Inl e
       | Inr sender \<Rightarrow> py_get sender (s2p ''first_name'') (JStr (s2p ''there''))) =
      Inr user_name \<and> format_value env user_name = sender_name env message"
  proof (cases "map_of kvs (s2p ''from'')")
    case None
    then show ?thesis
      by (simp add: m sender_name_def first_name_of_def field_def format_value_def)
  next
    case (Some sender)
    with assms(5) obtain fs where fs: "sender = JDict fs"
      by (cases sender) (simp_all add: m is_object_or_absent_def field_def)
    show ?thesis
      by (cases "map_of fs (s2p ''first_name'')")
        (simp_all add: m Some fs sender_name_def first_name_of_def field_def format_value_def)
  qed
  then obtain user_name where
    un: "(case py_get message (s2p ''from'') (JDict []) of
            Inl e \<Rightarrow> Inl e
          | Inr sender \<Rightarrow> py_get sender (s2p ''first_name'') (JStr (s2p ''there''))) =
         Inr user_name"
    and name: "format_value env user_name = sender_name env message"
    by blast
  have "snd (process_message env message) =
      snd (respond env chat_id (JStr body) user_name)"
    using un assms(2) body
    by (auto simp: process_message_unfold m chat cid mt split: sum.splits)
  then have trace: "snd (process_message env message) =
      [HttpPost (send_url env)
         (send_payload chat_id (welcome_message (sender_name env message)))]"
    using assms(4) by (simp add: respond_start name)
  have "sublist (sender_name env message) (welcome_message (sender_name env message))"
    unfolding welcome_message_def by (rule sublist_third)
  with trace show ?thesis
    by simp
qed


theorem process_message_start_witness:
  "snd (process_message (example_env (Inr (example_response 200)) (Inl example_timeout))
     (example_start_message 42)) =
     [HttpPost (send_url (example_env (Inr (example_response 200)) (Inl example_timeout)))
        (send_payload (JInt 42) (welcome_message (s2p ''Ana'')))] \<and>
   sublist (s2p ''Ana'') (welcome_message (s2p ''Ana''))"
proof -
  let ?e = "example_env (Inr (example_response 200)) (Inl example_timeout)"
  let ?m = "example_start_message 42"
  have h1: "chat_id_of ?m = Some (JInt 42)" and h2: "py_truthy (JInt 42)"
    and h3: "text_of ?m = Some (JStr (s2p ''/start''))"
    and h4: "prefix (s2p ''/start'') (s2p ''/start'')"
    and h5: "is_object_or_absent (field ?m (s2p ''from''))"
    by (simp_all add: example_start_message_def record_eval)
  have name: "sender_name ?e ?m = s2p ''Ana''"
    by (simp add: sender_name_def format_value_def example_start_message_def record_eval)
  from process_message_start [OF h1 h2 h3 h4 h5, of ?e] show ?thesis
    by (simp only: name)
qed

text \<open>
  The claim as it was stated covers every chat identifier that is present. With the
  identifier 0 and the text \<open>/start\<close>, nothing is sent: the guard tests truthiness.
\<close>

theorem process_message_start_zero_id_counterexample:
  "chat_id_of (example_start_message 0) = Some (JInt 0) \<and>
   text_of (example_start_message 0) = Some (JStr (s2p ''/start'')) \<and>
   prefix (s2p ''/start'') (s2p ''/start'') \<and>
   process_message (example_env (Inr (example_response 200)) (Inl example_timeout))
     (example_start_message 0) = (Inr (), [])"
proof -
  have h1: "chat_id_of (example_start_message 0) = Some (JInt 0)"
    and h3: "text_of (example_start_message 0) = Some (JStr (s2p ''/start''))"
    and r: "message_record (example_start_message 0)"
    by (simp_all add: example_start_message_def record_eval)
  from h1 have no: "\<not> (\<exists>c. chat_id_of (example_start_message 0) = Some c \<and> py_truthy c) \<or>
      \<not> (\<exists>t. text_of (example_start_message 0) = Some t \<and> py_truthy t)"
    by simp
  from process_message_no_reply [OF no] process_message_no_reply_returns [OF no r]
  have "process_message (example_env (Inr (example_response 200)) (Inl example_timeout))
     (example_start_message 0) = (Inr (), [])"
    by (simp add: prod_eq_iff)
  with h1 h3 show ?thesis
    by simp
qed

lemma webhook_cases:
  "fst (webhook env request_json) =
     (case request_json of
        Inl e \<Rightarrow> Inr (JDict [(s2p ''status'', JStr (s2p ''error'')),
                              (s2p ''message'', JStr (exc_str e))])
      | Inr update_data \<Rightarrow>
     (case py_get update_data (s2p ''message'') JNull of
        Inl e \<Rightarrow> Inr (JDict [(s2p ''status'', JStr (s2p ''error'')),
                              (s2p ''message'', JStr (exc_str e))])
      | Inr message \<Rightarrow>
          if py_truthy message then
            (case fst (process_message env message) of
               Inl e \<Rightarrow> Inr (JDict [(s2p ''status'', JStr (s2p ''error'')),
                                     (s2p ''message'', JStr (exc_str e))])
             | Inr u \<Rightarrow> Inr (JDict [(s2p ''status'', JStr (s2p ''ok''))]))
          else Inr (JDict [(s2p ''status'', JStr (s2p ''ok''))])))"
  by (cases "process_message env (projr (py_get (projr request_json) (s2p ''message'') JNull))")
    (auto simp: webhook_def res_simps lift_def split: sum.splits)

text \<open>
  Claim C8. Whatever the request body and whatever happens while the update is processed,
  \<open>webhook\<close> returns a body, which FastAPI sends with status 200: either
  \<open>{status: ok}\<close> or \<open>{status: error, message}\<close>. A body that does not parse, an update
  that is not an object, and an exception out of \<open>process_message\<close> all give the error
  body with the text of the exception.
\<close>

theorem webhook_always_200:
  "http_status (fastapi_response (fst (webhook env request_json))) = 200 \<and>
   (fst (webhook env request_json) = Inr (JDict [(s2p ''status'', JStr (s2p ''ok''))]) \<or>
    (\<exists>e. fst (webhook env request_json) =
       Inr (JDict [(s2p ''status'', JStr (s2p ''error'')),
                   (s2p ''message'', JStr (exc_str e))]))) \<and>
   (\<forall>e. request_json = Inl e \<longrightarrow>
      fst (webhook env request_json) =
        Inr (JDict [(s2p ''status'', JStr (s2p ''error'')),
                    (s2p ''message'', JStr (exc_str e))])) \<and>
   (\<forall>update_data e. request_json = Inr update_data \<longrightarrow>
      py_get update_data (s2p ''message'') JNull = Inl e \<longrightarrow>
      fst (webhook env request_json) =
        Inr (JDict [(s2p ''status'', JStr (s2p ''error'')),
                    (s2p ''message'', JStr (exc_str e))])) \<and>
   (\<forall>update_data message e. request_json = Inr update_data \<longrightarrow>
      py_get update_data (s2p ''message'') JNull = Inr message \<longrightarrow>
      py_truthy message \<longrightarrow> fst (process_message env message) = Inl e \<longrightarrow>
      fst (webhook env request_json) =
        Inr (JDict [(s2p ''status'', JStr (s2p ''error'')),
                    (s2p ''message'', JStr (exc_str e))]))"
proof (intro conjI allI impI)
  have "\<exists>body. fst (webhook env request_json) = Inr body"
    by (simp add: webhook_cases split: sum.splits)
  then show "http_status (fastapi_response (fst (webhook env request_json))) = 200"
    by (auto simp: fastapi_response_def)
next
  show "fst (webhook env request_json) = Inr (JDict [(s2p ''status'', JStr (s2p ''ok''))]) \<or>
    (\<exists>e. fst (webhook env request_json) =
       Inr (JDict [(s2p ''status'', JStr (s2p ''error'')),
                   (s2p ''message'', JStr (exc_str e))]))"
    by (simp add: webhook_cases split: sum.splits) blast
qed (simp_all add: webhook_cases)


theorem webhook_always_200_witness:
  "http_status (fastapi_response (fst (webhook
     (example_env (Inr (example_response 200)) (Inl example_timeout))
     (Inl (PyException ValueError (s2p ''Expecting value: line 1 column 1 (char 0)'')))))) = 200 \<and>
   fst (webhook (example_env (Inr (example_response 200)) (Inl example_timeout))
     (Inl (PyException ValueError (s2p ''Expecting value: line 1 column 1 (char 0)'')))) =
     Inr (JDict [(s2p ''status'', JStr (s2p ''error'')),
                 (s2p ''message'', JStr (s2p ''Expecting value: line 1 column 1 (char 0)''))]) \<and>
   fst (webhook (example_env (Inr (example_response 200)) (Inl example_timeout))
     (Inr (JDict [(s2p ''update_id'', JInt 1), (s2p ''message'', JStr (s2p ''hi''))]))) =
     Inr (JDict [(s2p ''status'', JStr (s2p ''error'')),
                 (s2p ''message'',
                  JStr (exc_str (attribute_error (JStr (s2p ''hi'')) (s2p ''get''))))])"
proof -
  let ?e = "example_env (Inr (example_response 200)) (Inl example_timeout)"
  let ?bad = "PyException ValueError (s2p ''Expecting value: line 1 column 1 (char 0)'')"
  let ?upd = "JDict [(s2p ''update_id'', JInt 1), (s2p ''message'', JStr (s2p ''hi''))]"
  have g: "py_get ?upd (s2p ''message'') JNull = Inr (JStr (s2p ''hi''))"
    by (simp add: s2p_def)
  have t: "py_truthy (JStr (s2p ''hi''))"
    by (simp add: s2p_def)
  have p: "fst (process_message ?e (JStr (s2p ''hi''))) =
      Inl (attribute_error (JStr (s2p ''hi'')) (s2p ''get''))"
    by (simp add: process_message_unfold)
  from webhook_always_200 [of ?e "Inl ?bad"]
  have "http_status (fastapi_response (fst (webhook ?e (Inl ?bad)))) = 200"
    and "fst (webhook ?e (Inl ?bad)) =
      Inr (JDict [(s2p ''status'', JStr (s2p ''error'')), (s2p ''message'', JStr (exc_str ?bad))])"
    by blast+
  moreover from webhook_always_200 [of ?e "Inr ?upd"] g t p
  have "fst (webhook ?e (Inr ?upd)) =
      Inr (JDict [(s2p ''status'', JStr (s2p ''error'')),
        (s2p ''message'', JStr (exc_str (attribute_error (JStr (s2p ''hi'')) (s2p ''get''))))])"
    by blast
  ultimately show ?thesis
    by simp
qed







end
